theory Spec2Isabelle
  imports Main "HOL-Library.Word"
begin

section \<open>A client for the WhatsGate HTTP gateway\<close>

text \<open>
  The Go package \<^verbatim>\<open>whatsgate\<close> wraps three calls of a WhatsApp gateway:
  \<^verbatim>\<open>SendMessage\<close>, \<^verbatim>\<open>SendPDF\<close> and \<^verbatim>\<open>Check\<close>. Each builds a request
  struct, marshals it to JSON, issues one POST through an \<^verbatim>\<open>http.Client\<close> whose transport
  adds two headers, and unmarshals the answer.

  Conventions of the embedding:
  \<^item> a Go \<^verbatim>\<open>string\<close> or \<^verbatim>\<open>[]byte\<close> is a \<open>string\<close> (a list of 8-bit characters);
    byte values and runes are read as \<open>int\<close>;
  \<^item> a Go function returning \<^verbatim>\<open>(T, error)\<close> returns a pair \<open>T \<times> error option\<close>, where
    \<open>None\<close> is the \<^verbatim>\<open>nil\<close> error;
  \<^item> a field \<^verbatim>\<open>F\<close> of a struct \<^verbatim>\<open>S\<close> is the record field \<open>S_F\<close>;
  \<^item> the packages of the Go standard library that the code calls (\<^verbatim>\<open>encoding/json\<close>,
    \<^verbatim>\<open>encoding/base64\<close>, \<^verbatim>\<open>net/http\<close>, \<^verbatim>\<open>io\<close>, \<^verbatim>\<open>log/slog\<close>, \<^verbatim>\<open>fmt\<close>) are
    modelled by the definitions below, to the extent stated at each of them.
\<close>

section \<open>JSON documents\<close>

text \<open>
  A number keeps its literal, as \<^verbatim>\<open>encoding/json\<close> does until the literal is stored
  into a typed field; the members of an object keep their order and their duplicates.
\<close>
datatype json =
    JNull
  | JBool bool
  | JNumber string
  | JString string
  | JArray "json list"
  | JObject "(string \<times> json) list"

definition byte :: "char \<Rightarrow> int" where
  "byte c = of_char c"

definition isSpace :: "char \<Rightarrow> bool" where
  "isSpace c = (c = CHR '' '' \<or> c = CHR 0x09 \<or> c = CHR 0x0D \<or> c = CHR 0x0A)"

definition isDigit :: "char \<Rightarrow> bool" where
  "isDigit c = (48 \<le> byte c \<and> byte c \<le> 57)"

definition isHex :: "char \<Rightarrow> bool" where
  "isHex c = (isDigit c \<or> (97 \<le> byte c \<and> byte c \<le> 102) \<or> (65 \<le> byte c \<and> byte c \<le> 70))"

datatype numstate = NNeg | N0 | N1 | NDot | NDot0 | NE | NESign | NE0

datatype frame =
    InArray "json list"
  | InObject "(string \<times> json) list" "string option"

datatype mode =
    BeginValue
  | BeginValueOrEmpty
  | BeginString
  | BeginStringOrEmpty
  | EndValue
  | InString string
  | InStringEsc string
  | InStringEscU nat string
  | InNumber numstate string
  | InLiteral json string

datatype step_result =
    Next mode "frame list"
  | Done json
  | DoneBefore json
  | Bad

definition maxNestingDepth :: int where
  "maxNestingDepth = 10000"

fun deliver :: "json \<Rightarrow> frame list \<Rightarrow> step_result" where
  "deliver v [] = Done v"
| "deliver v (InArray xs # st) = Next EndValue (InArray (v # xs) # st)"
| "deliver v (InObject ms (Some k) # st) = Next EndValue (InObject ((k, v) # ms) None # st)"
| "deliver (JString k) (InObject ms None # st) = Next EndValue (InObject ms (Some k) # st)"
| "deliver v (InObject ms None # st) = Bad"

fun stateEndValue :: "frame list \<Rightarrow> char \<Rightarrow> step_result" where
  "stateEndValue [] c = Bad"
| "stateEndValue (InObject ms (Some k) # st) c =
     (if isSpace c then Next EndValue (InObject ms (Some k) # st)
      else if c = CHR '':'' then Next BeginValue (InObject ms (Some k) # st)
      else Bad)"
| "stateEndValue (InObject ms None # st) c =
     (if isSpace c then Next EndValue (InObject ms None # st)
      else if c = CHR '','' then Next BeginString (InObject ms None # st)
      else if c = CHR ''}'' then deliver (JObject (rev ms)) st
      else Bad)"
| "stateEndValue (InArray xs # st) c =
     (if isSpace c then Next EndValue (InArray xs # st)
      else if c = CHR '','' then Next BeginValue (InArray xs # st)
      else if c = CHR '']'' then deliver (JArray (rev xs)) st
      else Bad)"


subsection \<open>String literals\<close>

definition hexval :: "char \<Rightarrow> int" where
  "hexval c = (if isDigit c then byte c - 48
               else if 97 \<le> byte c \<and> byte c \<le> 102 then byte c - 87
               else byte c - 55)"

definition getu4 :: "string \<Rightarrow> int option" where
  "getu4 s = (case s of
       b # u # h1 # h2 # h3 # h4 # _ \<Rightarrow>
         if b = CHR 0x5C \<and> u = CHR ''u'' \<and> isHex h1 \<and> isHex h2 \<and> isHex h3 \<and> isHex h4
         then Some (((hexval h1 * 16 + hexval h2) * 16 + hexval h3) * 16 + hexval h4)
         else None
     | _ \<Rightarrow> None)"

definition ReplacementChar :: int where
  "ReplacementChar = 0xFFFD"

definition EncodeRune :: "int \<Rightarrow> string" where
  "EncodeRune r =
     (if r < 0x80 then [char_of r]
      else if r < 0x800 then [char_of (0xC0 + r div 64), char_of (0x80 + r mod 64)]
      else if 0x10FFFF < r \<or> (0xD800 \<le> r \<and> r < 0xE000) then [CHR 0xEF, CHR 0xBF, CHR 0xBD]
      else if r < 0x10000 then
        [char_of (0xE0 + r div 4096), char_of (0x80 + (r div 64) mod 64), char_of (0x80 + r mod 64)]
      else
        [char_of (0xF0 + r div 262144), char_of (0x80 + (r div 4096) mod 64),
         char_of (0x80 + (r div 64) mod 64), char_of (0x80 + r mod 64)])"

definition isCont :: "char \<Rightarrow> bool" where
  "isCont c = (0x80 \<le> byte c \<and> byte c \<le> 0xBF)"

definition runeLen :: "string \<Rightarrow> nat" where
  "runeLen s = (case s of
       [] \<Rightarrow> 0
     | c0 # r0 \<Rightarrow>
        if byte c0 < 0x80 then 1
        else if byte c0 < 0xC2 \<or> 0xF4 < byte c0 then 0
        else (case r0 of
            [] \<Rightarrow> 0
          | c1 # r1 \<Rightarrow>
             if byte c0 < 0xE0 then (if isCont c1 then 2 else 0)
             else if \<not> ((if byte c0 = 0xE0 then 0xA0 else if byte c0 = 0xF0 then 0x90 else 0x80) \<le> byte c1
                       \<and> byte c1 \<le> (if byte c0 = 0xED then 0x9F else if byte c0 = 0xF4 then 0x8F else 0xBF))
             then 0
             else (case r1 of
                 [] \<Rightarrow> 0
               | c2 # r2 \<Rightarrow>
                  if \<not> isCont c2 then 0
                  else if byte c0 < 0xF0 then 3
                  else (case r2 of [] \<Rightarrow> 0 | c3 # _ \<Rightarrow> if isCont c3 then 4 else 0))))"

definition unescape :: "char \<Rightarrow> char" where
  "unescape c = (if c = CHR ''b'' then CHR 0x08
                 else if c = CHR ''f'' then CHR 0x0C
                 else if c = CHR ''n'' then CHR 0x0A
                 else if c = CHR ''r'' then CHR 0x0D
                 else if c = CHR ''t'' then CHR 0x09
                 else c)"

definition unquote1 :: "string \<Rightarrow> string \<times> nat" where
  "unquote1 s = (case s of
       [] \<Rightarrow> ([], 1)
     | c # cs \<Rightarrow>
        if c = CHR 0x5C then
          (case cs of
             [] \<Rightarrow> ([], 1)
           | e # es \<Rightarrow>
              if e = CHR ''u'' then
                (case getu4 s of
                   None \<Rightarrow> ([], 2)
                 | Some rr \<Rightarrow>
                    if 0xD800 \<le> rr \<and> rr < 0xE000 then
                      (case getu4 (drop 6 s) of
                         Some rr1 \<Rightarrow>
                           if rr < 0xDC00 \<and> 0xDC00 \<le> rr1 \<and> rr1 < 0xE000
                           then (EncodeRune (0x10000 + (rr - 0xD800) * 1024 + (rr1 - 0xDC00)), 12)
                           else (EncodeRune ReplacementChar, 6)
                       | None \<Rightarrow> (EncodeRune ReplacementChar, 6))
                    else (EncodeRune rr, 6))
              else ([unescape e], 2))
        else if byte c < 0x80 then ([c], 1)
        else if runeLen s = 0 then (EncodeRune ReplacementChar, 1)
        else (take (runeLen s) s, runeLen s))"

function unquote :: "string \<Rightarrow> string" where
  "unquote [] = []"
| "unquote (c # cs) =
     fst (unquote1 (c # cs)) @ unquote (drop (snd (unquote1 (c # cs)) - 1) cs)"
  by pat_completeness simp_all
termination
  by (relation "measure length") simp_all


subsection \<open>The scanner\<close>

definition pushParseState :: "frame \<Rightarrow> mode \<Rightarrow> frame list \<Rightarrow> step_result" where
  "pushParseState f m st =
     (if int (length st) + 1 \<le> maxNestingDepth then Next m (f # st) else Bad)"

definition stateBeginValue :: "frame list \<Rightarrow> char \<Rightarrow> step_result" where
  "stateBeginValue st c =
     (if isSpace c then Next BeginValue st
      else if c = CHR ''{'' then pushParseState (InObject [] None) BeginStringOrEmpty st
      else if c = CHR ''['' then pushParseState (InArray []) BeginValueOrEmpty st
      else if c = CHR 0x22 then Next (InString []) st
      else if c = CHR ''-'' then Next (InNumber NNeg [c]) st
      else if c = CHR ''0'' then Next (InNumber N0 [c]) st
      else if c = CHR ''t'' then Next (InLiteral (JBool True) ''rue'') st
      else if c = CHR ''f'' then Next (InLiteral (JBool False) ''alse'') st
      else if c = CHR ''n'' then Next (InLiteral JNull ''ull'') st
      else if isDigit c then Next (InNumber N1 [c]) st
      else Bad)"

definition endNumber :: "string \<Rightarrow> frame list \<Rightarrow> char \<Rightarrow> step_result" where
  "endNumber acc st c =
     (case st of
        [] \<Rightarrow> DoneBefore (JNumber (rev acc))
      | _ # _ \<Rightarrow>
         (case deliver (JNumber (rev acc)) st of
            Next _ st' \<Rightarrow> stateEndValue st' c
          | _ \<Rightarrow> Bad))"

definition state0 :: "string \<Rightarrow> frame list \<Rightarrow> char \<Rightarrow> step_result" where
  "state0 acc st c =
     (if c = CHR ''.'' then Next (InNumber NDot (c # acc)) st
      else if c = CHR ''e'' \<or> c = CHR ''E'' then Next (InNumber NE (c # acc)) st
      else endNumber acc st c)"

definition stateESign :: "string \<Rightarrow> frame list \<Rightarrow> char \<Rightarrow> step_result" where
  "stateESign acc st c =
     (if isDigit c then Next (InNumber NE0 (c # acc)) st else Bad)"

fun stateNumber :: "numstate \<Rightarrow> string \<Rightarrow> frame list \<Rightarrow> char \<Rightarrow> step_result" where
  "stateNumber NNeg acc st c =
     (if c = CHR ''0'' then Next (InNumber N0 (c # acc)) st
      else if isDigit c then Next (InNumber N1 (c # acc)) st
      else Bad)"
| "stateNumber N1 acc st c =
     (if isDigit c then Next (InNumber N1 (c # acc)) st
      else state0 acc st c)"
| "stateNumber N0 acc st c = state0 acc st c"
| "stateNumber NDot acc st c =
     (if isDigit c then Next (InNumber NDot0 (c # acc)) st else Bad)"
| "stateNumber NDot0 acc st c =
     (if isDigit c then Next (InNumber NDot0 (c # acc)) st
      else if c = CHR ''e'' \<or> c = CHR ''E'' then Next (InNumber NE (c # acc)) st
      else endNumber acc st c)"
| "stateNumber NE acc st c =
     (if c = CHR ''+'' \<or> c = CHR ''-'' then Next (InNumber NESign (c # acc)) st
      else stateESign acc st c)"
| "stateNumber NESign acc st c = stateESign acc st c"
| "stateNumber NE0 acc st c =
     (if isDigit c then Next (InNumber NE0 (c # acc)) st
      else endNumber acc st c)"

definition stateBeginString :: "frame list \<Rightarrow> char \<Rightarrow> step_result" where
  "stateBeginString st c =
     (if isSpace c then Next BeginString st
      else if c = CHR 0x22 then Next (InString []) st
      else Bad)"

fun step :: "mode \<Rightarrow> frame list \<Rightarrow> char \<Rightarrow> step_result" where
  "step BeginValue st c = stateBeginValue st c"
| "step BeginValueOrEmpty st c =
     (if isSpace c then Next BeginValueOrEmpty st
      else if c = CHR '']'' then stateEndValue st c
      else stateBeginValue st c)"
| "step BeginStringOrEmpty st c =
     (if isSpace c then Next BeginStringOrEmpty st
      else if c = CHR ''}'' then stateEndValue st c
      else stateBeginString st c)"
| "step BeginString st c = stateBeginString st c"
| "step EndValue st c = stateEndValue st c"
| "step (InString acc) st c =
     (if c = CHR 0x22 then deliver (JString (unquote (rev acc))) st
      else if c = CHR 0x5C then Next (InStringEsc (c # acc)) st
      else if byte c < 0x20 then Bad
      else Next (InString (c # acc)) st)"
| "step (InStringEsc acc) st c =
     (if c = CHR ''b'' \<or> c = CHR ''f'' \<or> c = CHR ''n'' \<or> c = CHR ''r'' \<or> c = CHR ''t''
         \<or> c = CHR 0x5C \<or> c = CHR ''/'' \<or> c = CHR 0x22
      then Next (InString (c # acc)) st
      else if c = CHR ''u'' then Next (InStringEscU 4 (c # acc)) st
      else Bad)"
| "step (InStringEscU n acc) st c =
     (if isHex c then (if n \<le> 1 then Next (InString (c # acc)) st
                       else Next (InStringEscU (n - 1) (c # acc)) st)
      else Bad)"
| "step (InNumber ns acc) st c = stateNumber ns acc st c"
| "step (InLiteral v rest) st c =
     (case rest of
        [] \<Rightarrow> Bad
      | r # rs \<Rightarrow>
         if c = r then (if rs = [] then deliver v st else Next (InLiteral v rs) st)
         else Bad)"

datatype scan_result =
    Value json string
  | Invalid
  | Pending mode "frame list"

fun scan :: "mode \<Rightarrow> frame list \<Rightarrow> string \<Rightarrow> scan_result" where
  "scan m st [] = Pending m st"
| "scan m st (c # cs) =
     (case step m st c of
        Next m' st' \<Rightarrow> scan m' st' cs
      | Done v \<Rightarrow> Value v cs
      | DoneBefore v \<Rightarrow> Value v (c # cs)
      | Bad \<Rightarrow> Invalid)"

definition eof :: "mode \<Rightarrow> frame list \<Rightarrow> json option" where
  "eof m st = (case step m st (CHR '' '') of DoneBefore v \<Rightarrow> Some v | _ \<Rightarrow> None)"

section \<open>Errors\<close>

text \<open>
  Go's \<^verbatim>\<open>error\<close> values. \<open>errorString\<close> is what \<^verbatim>\<open>errors.New\<close> builds;
  \<open>SyntaxError\<close> and \<open>UnmarshalTypeError\<close> come from \<^verbatim>\<open>encoding/json\<close> (the latter
  carries the description of the offending JSON value), \<open>EOF\<close> and \<open>ErrUnexpectedEOF\<close>
  from \<^verbatim>\<open>io\<close>; \<open>external\<close> stands for any error produced outside this model: by the URL
  parser, by the network, by a reader.
\<close>

datatype error =
    errorString string
  | SyntaxError string
  | UnmarshalTypeError string
  | EOF
  | ErrUnexpectedEOF
  | external string

definition errors_New :: "string \<Rightarrow> error" where
  "errors_New text = errorString text"

section \<open>Unmarshalling\<close>

subsection \<open>Stores into typed fields\<close>

text \<open>
  Go's \<^verbatim>\<open>int\<close> is taken as 64 bits wide. A number literal is stored into an \<^verbatim>\<open>int\<close>
  field when \<^verbatim>\<open>strconv.ParseInt(s, 10, 64)\<close> accepts it: an optional minus sign, decimal
  digits only, and a value in range.
\<close>

type_synonym go_int = "64 word"

definition digits :: "string \<Rightarrow> int" where
  "digits ds = foldl (\<lambda>n c. n * 10 + (byte c - 48)) 0 ds"

definition ParseInt :: "string \<Rightarrow> int option" where
  "ParseInt s =
     (let neg = (take 1 s = ''-'');
          ds = (if neg then drop 1 s else s);
          n = (if neg then - digits ds else digits ds)
      in if ds = [] \<or> \<not> list_all isDigit ds then None
         else if - (2 ^ 63) \<le> n \<and> n < 2 ^ 63 then Some n
         else None)"

text \<open>
  Each store returns the new value of the field and, when the JSON value does not fit the
  field's type, the \<^verbatim>\<open>Value\<close> of the \<^verbatim>\<open>UnmarshalTypeError\<close>; the field then keeps
  its old value. \<^verbatim>\<open>null\<close> leaves a field of these types as it is, without error.
\<close>

fun storeString :: "json \<Rightarrow> string \<Rightarrow> string \<times> string option" where
  "storeString (JString s) old = (s, None)"
| "storeString JNull old = (old, None)"
| "storeString (JBool b) old = (old, Some ''bool'')"
| "storeString (JNumber n) old = (old, Some ''number'')"
| "storeString (JArray xs) old = (old, Some ''array'')"
| "storeString (JObject ms) old = (old, Some ''object'')"

fun storeBool :: "json \<Rightarrow> bool \<Rightarrow> bool \<times> string option" where
  "storeBool (JBool b) old = (b, None)"
| "storeBool JNull old = (old, None)"
| "storeBool (JString s) old = (old, Some ''string'')"
| "storeBool (JNumber n) old = (old, Some ''number'')"
| "storeBool (JArray xs) old = (old, Some ''array'')"
| "storeBool (JObject ms) old = (old, Some ''object'')"

fun storeInt :: "json \<Rightarrow> go_int \<Rightarrow> go_int \<times> string option" where
  "storeInt (JNumber n) old =
     (case ParseInt n of
        Some i \<Rightarrow> (word_of_int i, None)
      | None \<Rightarrow> (old, Some (''number '' @ n)))"
| "storeInt JNull old = (old, None)"
| "storeInt (JString s) old = (old, Some ''string'')"
| "storeInt (JBool b) old = (old, Some ''bool'')"
| "storeInt (JArray xs) old = (old, Some ''array'')"
| "storeInt (JObject ms) old = (old, Some ''object'')"

text \<open>Only the first type error of a call is kept; decoding goes on after it.\<close>

definition saveError :: "error option \<Rightarrow> string option \<Rightarrow> error option" where
  "saveError saved new =
     (case saved of
        Some e \<Rightarrow> Some e
      | None \<Rightarrow> (case new of None \<Rightarrow> None | Some v \<Rightarrow> Some (UnmarshalTypeError v)))"

subsection \<open>Matching a key to a field\<close>

text \<open>
  A key selects the field whose JSON name it equals, and otherwise the first field whose
  name it equals under case folding. The folding maps \<open>a\<close>..\<open>z\<close> to upper case, and the
  two non-ASCII runes that fold to ASCII letters, U+017F (long s) and U+212A (Kelvin sign),
  to \<open>S\<close> and \<open>K\<close>. Other non-ASCII runes are left alone here: they fold to non-ASCII runes,
  and every field name of this package is ASCII.
\<close>

function foldName :: "string \<Rightarrow> string" where
  "foldName [] = []"
| "foldName (c # cs) =
     (if 97 \<le> byte c \<and> byte c \<le> 122 then char_of (byte c - 32) # foldName cs
      else if c = CHR 0xC5 \<and> take 1 cs = [CHR 0xBF] then CHR ''S'' # foldName (drop 1 cs)
      else if c = CHR 0xE2 \<and> take 2 cs = [CHR 0x84, CHR 0xAA] then CHR ''K'' # foldName (drop 2 cs)
      else c # foldName cs)"
  by pat_completeness simp_all
termination
  by (relation "measure length") simp_all

definition findField :: "string list \<Rightarrow> string \<Rightarrow> string option" where
  "findField names key =
     (if key \<in> set names then Some key
      else find (\<lambda>n. foldName n = foldName key) names)"

subsection \<open>The response structs\<close>

text \<open>
  \<^verbatim>\<open>MessageResponse\<close> has one field, \<^verbatim>\<open>Result\<close>, of an anonymous struct type, here the
  record \<open>Result\<close>. The zero value of a struct has every string empty, every integer 0
  and every boolean false.
\<close>

record Result =
  Result_Id :: string
  Result_Id1 :: string
  Result_Ack :: go_int
  Result_HasMedia :: bool
  Result_MediaKey :: string
  Result_Body :: string
  Result_Type :: string
  Result_Timestamp :: go_int
  Result_From :: string
  Result_FromName :: string
  Result_To :: string
  Result_IsForwarded :: bool

record MessageResponse =
  MessageResponse_Result :: Result

record CheckResponse =
  CheckResponse_Result :: string
  CheckResponse_Data :: bool

definition Result_zero :: Result where
  "Result_zero =
     \<lparr>Result_Id = [], Result_Id1 = [], Result_Ack = 0, Result_HasMedia = False,
      Result_MediaKey = [], Result_Body = [], Result_Type = [], Result_Timestamp = 0,
      Result_From = [], Result_FromName = [], Result_To = [], Result_IsForwarded = False\<rparr>"

definition MessageResponse_zero :: MessageResponse where
  "MessageResponse_zero = \<lparr>MessageResponse_Result = Result_zero\<rparr>"

definition CheckResponse_zero :: CheckResponse where
  "CheckResponse_zero = \<lparr>CheckResponse_Result = [], CheckResponse_Data = False\<rparr>"

text \<open>The JSON names of the fields, from the struct tags, in the order of declaration.\<close>

definition Result_names :: "string list" where
  "Result_names =
     [''_id'', ''id'', ''ack'', ''hasMedia'', ''mediaKey'', ''body'', ''type'', ''timestamp'',
      ''from'', ''from_name'', ''to'', ''isForwarded'']"

definition MessageResponse_names :: "string list" where
  "MessageResponse_names = [''result'']"

definition CheckResponse_names :: "string list" where
  "CheckResponse_names = [''result'', ''data'']"

definition Result_store :: "string \<Rightarrow> json \<Rightarrow> Result \<Rightarrow> Result \<times> string option" where
  "Result_store name v r =
     (if name = ''_id'' then
        (case storeString v (Result_Id r) of (x, e) \<Rightarrow> (r\<lparr>Result_Id := x\<rparr>, e))
      else if name = ''id'' then
        (case storeString v (Result_Id1 r) of (x, e) \<Rightarrow> (r\<lparr>Result_Id1 := x\<rparr>, e))
      else if name = ''ack'' then
        (case storeInt v (Result_Ack r) of (x, e) \<Rightarrow> (r\<lparr>Result_Ack := x\<rparr>, e))
      else if name = ''hasMedia'' then
        (case storeBool v (Result_HasMedia r) of (x, e) \<Rightarrow> (r\<lparr>Result_HasMedia := x\<rparr>, e))
      else if name = ''mediaKey'' then
        (case storeString v (Result_MediaKey r) of (x, e) \<Rightarrow> (r\<lparr>Result_MediaKey := x\<rparr>, e))
      else if name = ''body'' then
        (case storeString v (Result_Body r) of (x, e) \<Rightarrow> (r\<lparr>Result_Body := x\<rparr>, e))
      else if name = ''type'' then
        (case storeString v (Result_Type r) of (x, e) \<Rightarrow> (r\<lparr>Result_Type := x\<rparr>, e))
      else if name = ''timestamp'' then
        (case storeInt v (Result_Timestamp r) of (x, e) \<Rightarrow> (r\<lparr>Result_Timestamp := x\<rparr>, e))
      else if name = ''from'' then
        (case storeString v (Result_From r) of (x, e) \<Rightarrow> (r\<lparr>Result_From := x\<rparr>, e))
      else if name = ''from_name'' then
        (case storeString v (Result_FromName r) of (x, e) \<Rightarrow> (r\<lparr>Result_FromName := x\<rparr>, e))
      else if name = ''to'' then
        (case storeString v (Result_To r) of (x, e) \<Rightarrow> (r\<lparr>Result_To := x\<rparr>, e))
      else if name = ''isForwarded'' then
        (case storeBool v (Result_IsForwarded r) of (x, e) \<Rightarrow> (r\<lparr>Result_IsForwarded := x\<rparr>, e))
      else (r, None))"

text \<open>
  An object is decoded member by member into the struct as it stands: a key that matches
  no field is skipped, a repeated key stores again.
\<close>

fun Result_object :: "(string \<times> json) list \<Rightarrow> Result \<times> error option \<Rightarrow> Result \<times> error option" where
  "Result_object [] acc = acc"
| "Result_object ((key, v) # ms) (r, saved) =
     (case findField Result_names key of
        None \<Rightarrow> Result_object ms (r, saved)
      | Some name \<Rightarrow>
         (case Result_store name v r of
            (r', e) \<Rightarrow> Result_object ms (r', saveError saved e)))"

fun Result_value :: "json \<Rightarrow> Result \<times> error option \<Rightarrow> Result \<times> error option" where
  "Result_value (JObject ms) acc = Result_object ms acc"
| "Result_value JNull acc = acc"
| "Result_value (JString s) (r, saved) = (r, saveError saved (Some ''string''))"
| "Result_value (JNumber n) (r, saved) = (r, saveError saved (Some ''number''))"
| "Result_value (JBool b) (r, saved) = (r, saveError saved (Some ''bool''))"
| "Result_value (JArray xs) (r, saved) = (r, saveError saved (Some ''array''))"

fun MessageResponse_object ::
  "(string \<times> json) list \<Rightarrow> MessageResponse \<times> error option \<Rightarrow> MessageResponse \<times> error option" where
  "MessageResponse_object [] acc = acc"
| "MessageResponse_object ((key, v) # ms) (m, saved) =
     (case findField MessageResponse_names key of
        None \<Rightarrow> MessageResponse_object ms (m, saved)
      | Some name \<Rightarrow>
         (case Result_value v (MessageResponse_Result m, saved) of
            (r', saved') \<Rightarrow> MessageResponse_object ms (m\<lparr>MessageResponse_Result := r'\<rparr>, saved')))"

fun MessageResponse_value ::
  "json \<Rightarrow> MessageResponse \<times> error option \<Rightarrow> MessageResponse \<times> error option" where
  "MessageResponse_value (JObject ms) acc = MessageResponse_object ms acc"
| "MessageResponse_value JNull acc = acc"
| "MessageResponse_value (JString s) (m, saved) = (m, saveError saved (Some ''string''))"
| "MessageResponse_value (JNumber n) (m, saved) = (m, saveError saved (Some ''number''))"
| "MessageResponse_value (JBool b) (m, saved) = (m, saveError saved (Some ''bool''))"
| "MessageResponse_value (JArray xs) (m, saved) = (m, saveError saved (Some ''array''))"

definition CheckResponse_store ::
  "string \<Rightarrow> json \<Rightarrow> CheckResponse \<Rightarrow> CheckResponse \<times> string option" where
  "CheckResponse_store name v r =
     (if name = ''result'' then
        (case storeString v (CheckResponse_Result r) of (x, e) \<Rightarrow> (r\<lparr>CheckResponse_Result := x\<rparr>, e))
      else if name = ''data'' then
        (case storeBool v (CheckResponse_Data r) of (x, e) \<Rightarrow> (r\<lparr>CheckResponse_Data := x\<rparr>, e))
      else (r, None))"

fun CheckResponse_object ::
  "(string \<times> json) list \<Rightarrow> CheckResponse \<times> error option \<Rightarrow> CheckResponse \<times> error option" where
  "CheckResponse_object [] acc = acc"
| "CheckResponse_object ((key, v) # ms) (r, saved) =
     (case findField CheckResponse_names key of
        None \<Rightarrow> CheckResponse_object ms (r, saved)
      | Some name \<Rightarrow>
         (case CheckResponse_store name v r of
            (r', e) \<Rightarrow> CheckResponse_object ms (r', saveError saved e)))"

fun CheckResponse_value ::
  "json \<Rightarrow> CheckResponse \<times> error option \<Rightarrow> CheckResponse \<times> error option" where
  "CheckResponse_value (JObject ms) acc = CheckResponse_object ms acc"
| "CheckResponse_value JNull acc = acc"
| "CheckResponse_value (JString s) (r, saved) = (r, saveError saved (Some ''string''))"
| "CheckResponse_value (JNumber n) (r, saved) = (r, saveError saved (Some ''number''))"
| "CheckResponse_value (JBool b) (r, saved) = (r, saveError saved (Some ''bool''))"
| "CheckResponse_value (JArray xs) (r, saved) = (r, saveError saved (Some ''array''))"

subsection \<open>\<^verbatim>\<open>json.Unmarshal\<close> and \<^verbatim>\<open>json.Decoder\<close>\<close>

text \<open>
  \<^verbatim>\<open>json.Unmarshal\<close> first checks that the whole input is one JSON value with nothing but
  white space around it, and decodes only then.
\<close>

definition checkValid :: "string \<Rightarrow> error + json" where
  "checkValid data =
     (case scan BeginValue [] data of
        Value v rest \<Rightarrow>
          if list_all isSpace rest then Inr v
          else Inl (SyntaxError ''invalid character after top-level value'')
      | Invalid \<Rightarrow> Inl (SyntaxError ''invalid character'')
      | Pending m st \<Rightarrow>
          (case eof m st of
             Some v \<Rightarrow> Inr v
           | None \<Rightarrow> Inl (SyntaxError ''unexpected end of JSON input'')))"

definition json_Unmarshal_MessageResponse ::
  "string \<Rightarrow> MessageResponse \<Rightarrow> MessageResponse \<times> error option" where
  "json_Unmarshal_MessageResponse data message =
     (case checkValid data of
        Inl err \<Rightarrow> (message, Some err)
      | Inr v \<Rightarrow> MessageResponse_value v (message, None))"

section \<open>Readers\<close>

text \<open>
  An \<^verbatim>\<open>io.Reader\<close> is modelled by what reading it to the end gives: the bytes it
  delivers, and the error it then fails with, if any (the end of the stream is not an
  error).
\<close>

record Reader =
  Reader_data :: string
  Reader_err :: "error option"

definition io_ReadAll :: "Reader \<Rightarrow> string \<times> error option" where
  "io_ReadAll r = (Reader_data r, Reader_err r)"

text \<open>
  \<^verbatim>\<open>json.NewDecoder(r).Decode\<close> reads the first JSON value of the stream and stops
  there: what follows the value is not looked at. A value that is complete in the bytes
  delivered is decoded even if the reader fails later; otherwise the reader's error, or
  the end of the stream, is what \<^verbatim>\<open>Decode\<close> returns.
\<close>

definition readValue :: "Reader \<Rightarrow> error + json" where
  "readValue r =
     (case scan BeginValue [] (Reader_data r) of
        Value v rest \<Rightarrow> Inr v
      | Invalid \<Rightarrow> Inl (SyntaxError ''invalid character'')
      | Pending m st \<Rightarrow>
          (case Reader_err r of
             Some err \<Rightarrow> Inl err
           | None \<Rightarrow>
              (case eof m st of
                 Some v \<Rightarrow> Inr v
               | None \<Rightarrow>
                  if list_all isSpace (Reader_data r) then Inl EOF else Inl ErrUnexpectedEOF)))"

definition Decoder_Decode_CheckResponse ::
  "Reader \<Rightarrow> CheckResponse \<Rightarrow> CheckResponse \<times> error option" where
  "Decoder_Decode_CheckResponse r response =
     (case readValue r of
        Inl err \<Rightarrow> (response, Some err)
      | Inr v \<Rightarrow> CheckResponse_value v (response, None))"

section \<open>Marshalling the requests\<close>

record Recipient =
  Recipient_Number :: string

record Message =
  Message_Type :: string
  Message_Body :: string

record Media =
  Media_Mimetype :: string
  Media_Data :: string
  Media_Filename :: string

record MessagePDF =
  MessagePDF_Type :: string
  MessagePDF_Body :: string
  MessagePDF_Media :: Media

record MessageRequest =
  MessageRequest_WhatsappID :: string
  MessageRequest_Async :: bool
  MessageRequest_Recipient :: Recipient
  MessageRequest_Message :: Message

record MessagePDFRequest =
  MessagePDFRequest_WhatsappID :: string
  MessagePDFRequest_Async :: bool
  MessagePDFRequest_Recipient :: Recipient
  MessagePDFRequest_Message :: MessagePDF

record CheckRequest =
  CheckRequest_WhatsappID :: string
  CheckRequest_Number :: string

text \<open>
  \<^verbatim>\<open>json.Marshal\<close> of a struct writes an object with one member per field, named by the
  field's tag, in the order of declaration. The model keeps the document that is written,
  not its bytes: the escaping of a string, and the replacement of bytes that are not valid
  UTF-8, happen below this level. Structs of strings and booleans always marshal, so the
  error is always \<^verbatim>\<open>nil\<close>.
\<close>

definition Recipient_json :: "Recipient \<Rightarrow> json" where
  "Recipient_json r = JObject [(''number'', JString (Recipient_Number r))]"

definition Message_json :: "Message \<Rightarrow> json" where
  "Message_json m =
     JObject [(''type'', JString (Message_Type m)), (''body'', JString (Message_Body m))]"

definition Media_json :: "Media \<Rightarrow> json" where
  "Media_json m =
     JObject [(''mimetype'', JString (Media_Mimetype m)), (''data'', JString (Media_Data m)),
              (''filename'', JString (Media_Filename m))]"

definition MessagePDF_json :: "MessagePDF \<Rightarrow> json" where
  "MessagePDF_json m =
     JObject [(''type'', JString (MessagePDF_Type m)), (''body'', JString (MessagePDF_Body m)),
              (''media'', Media_json (MessagePDF_Media m))]"

definition json_Marshal_MessageRequest :: "MessageRequest \<Rightarrow> json \<times> error option" where
  "json_Marshal_MessageRequest r =
     (JObject [(''WhatsappID'', JString (MessageRequest_WhatsappID r)),
               (''async'', JBool (MessageRequest_Async r)),
               (''recipient'', Recipient_json (MessageRequest_Recipient r)),
               (''message'', Message_json (MessageRequest_Message r))], None)"

definition json_Marshal_MessagePDFRequest :: "MessagePDFRequest \<Rightarrow> json \<times> error option" where
  "json_Marshal_MessagePDFRequest r =
     (JObject [(''WhatsappID'', JString (MessagePDFRequest_WhatsappID r)),
               (''async'', JBool (MessagePDFRequest_Async r)),
               (''recipient'', Recipient_json (MessagePDFRequest_Recipient r)),
               (''message'', MessagePDF_json (MessagePDFRequest_Message r))], None)"

definition json_Marshal_CheckRequest :: "CheckRequest \<Rightarrow> json \<times> error option" where
  "json_Marshal_CheckRequest r =
     (JObject [(''WhatsappID'', JString (CheckRequest_WhatsappID r)),
               (''number'', JString (CheckRequest_Number r))], None)"

section \<open>Base64\<close>

text \<open>
  \<^verbatim>\<open>base64.StdEncoding.EncodeToString\<close>: the alphabet of RFC 4648, three bytes to four
  characters, the last group padded with \<open>=\<close>.
\<close>

definition encodeStd :: string where
  "encodeStd = ''ABCDEFGHIJKLMNOPQRSTUVWXYZabcdefghijklmnopqrstuvwxyz0123456789+/''"

definition encode6 :: "int \<Rightarrow> char" where
  "encode6 v = encodeStd ! nat (v mod 64)"

fun EncodeToString :: "string \<Rightarrow> string" where
  "EncodeToString [] = []"
| "EncodeToString [a] =
     (let val = byte a * 65536
      in [encode6 (val div 262144), encode6 (val div 4096), CHR ''='', CHR ''=''])"
| "EncodeToString [a, b] =
     (let val = byte a * 65536 + byte b * 256
      in [encode6 (val div 262144), encode6 (val div 4096), encode6 (val div 64), CHR ''=''])"
| "EncodeToString (a # b # c # src) =
     (let val = byte a * 65536 + byte b * 256 + byte c
      in [encode6 (val div 262144), encode6 (val div 4096), encode6 (val div 64), encode6 val]
         @ EncodeToString src)"

section \<open>HTTP\<close>

subsection \<open>Headers\<close>

text \<open>
  An \<^verbatim>\<open>http.Header\<close> maps a canonical key to the list of its values. \<^verbatim>\<open>Add\<close>,
  \<^verbatim>\<open>Values\<close> and \<^verbatim>\<open>Get\<close> canonicalise the key they are given: the first letter and
  every letter after a hyphen in upper case, the others in lower case; a key with a byte
  that is not a token character is left as it is.
\<close>

type_synonym Header = "string \<rightharpoonup> string list"

definition validHeaderFieldByte :: "char \<Rightarrow> bool" where
  "validHeaderFieldByte c =
     ((48 \<le> byte c \<and> byte c \<le> 57) \<or> (65 \<le> byte c \<and> byte c \<le> 90)
      \<or> (97 \<le> byte c \<and> byte c \<le> 122)
      \<or> c \<in> set (''!#$%&*+-.^_|~'' @ [CHR 0x27, CHR 0x60]))"

fun canonical :: "bool \<Rightarrow> string \<Rightarrow> string" where
  "canonical upper [] = []"
| "canonical upper (c # cs) =
     (let c' = (if upper \<and> 97 \<le> byte c \<and> byte c \<le> 122 then char_of (byte c - 32)
                else if \<not> upper \<and> 65 \<le> byte c \<and> byte c \<le> 90 then char_of (byte c + 32)
                else c)
      in c' # canonical (c' = CHR ''-'') cs)"

definition CanonicalMIMEHeaderKey :: "string \<Rightarrow> string" where
  "CanonicalMIMEHeaderKey s = (if list_all validHeaderFieldByte s then canonical True s else s)"

definition Header_Values :: "Header \<Rightarrow> string \<Rightarrow> string list" where
  "Header_Values h key =
     (case h (CanonicalMIMEHeaderKey key) of None \<Rightarrow> [] | Some vs \<Rightarrow> vs)"

definition Header_Get :: "Header \<Rightarrow> string \<Rightarrow> string" where
  "Header_Get h key = (case Header_Values h key of [] \<Rightarrow> [] | v # _ \<Rightarrow> v)"

definition Header_Add :: "Header \<Rightarrow> string \<Rightarrow> string \<Rightarrow> Header" where
  "Header_Add h key v =
     h(CanonicalMIMEHeaderKey key \<mapsto> Header_Values h key @ [v])"

subsection \<open>Requests, responses and the world\<close>

text \<open>
  The body of a request is the JSON document marshalled into it. A response has the
  status line's text, the status code, and a body to be read.
\<close>

record Request =
  Request_Method :: string
  Request_URL :: string
  Request_Header :: Header
  Request_Body :: json
  Request_Close :: bool

record Response =
  Response_Status :: string
  Response_StatusCode :: int
  Response_Body :: Reader

definition StatusOK :: int where
  "StatusOK = 200"

text \<open>
  An \<^verbatim>\<open>http.RoundTripper\<close> is the function that answers a request, with a response or
  with an error, given the requests that went out before it.
\<close>

type_synonym RoundTripper = "Request list \<Rightarrow> Request \<Rightarrow> error + Response"

record transport =
  transport_rt :: RoundTripper
  transport_xApiKey :: string

record http_Client =
  http_Client_Transport :: transport

record Client =
  Client_httpClient :: http_Client
  Client_url :: string
  Client_WhatsappID :: string

text \<open>
  The world the methods run in: the \<^verbatim>\<open>Client\<close> that the receiver points to; the two
  parts of the standard library taken as they are given, \<^verbatim>\<open>http.DefaultTransport\<close> and
  the URL parser behind \<^verbatim>\<open>http.NewRequest\<close> (\<open>None\<close> when it accepts the URL); and what
  the calls leave behind: the requests handed to the underlying round tripper, the lines
  printed to standard output, and the errors logged through \<^verbatim>\<open>slog\<close>, each oldest first.
\<close>

record world =
  client :: Client
  http_DefaultTransport :: RoundTripper
  url_Parse :: "string \<Rightarrow> error option"
  wire :: "Request list"
  stdout :: "string list"
  slog :: "error list"

definition slog_Error :: "error \<Rightarrow> world \<Rightarrow> world" where
  "slog_Error err w = w\<lparr>slog := slog w @ [err]\<rparr>"

definition fmt_Println :: "string \<Rightarrow> world \<Rightarrow> world" where
  "fmt_Println line w = w\<lparr>stdout := stdout w @ [line]\<rparr>"

text \<open>
  \<^verbatim>\<open>http.NewRequest\<close> fails on a method that is not a token and on a URL that does not
  parse; the request it returns has an empty header.
\<close>

definition validMethod :: "string \<Rightarrow> bool" where
  "validMethod method = (method \<noteq> [] \<and> list_all validHeaderFieldByte method)"

definition http_NewRequest :: "world \<Rightarrow> string \<Rightarrow> string \<Rightarrow> json \<Rightarrow> error + Request" where
  "http_NewRequest w method url body =
     (if \<not> validMethod method then Inl (external ''net/http: invalid method'')
      else case url_Parse w url of
             Some err \<Rightarrow> Inl err
           | None \<Rightarrow>
               Inr \<lparr>Request_Method = method, Request_URL = url, Request_Header = Map.empty,
                    Request_Body = body, Request_Close = False\<rparr>)"

text \<open>The call of the underlying round tripper: the request goes out and is answered.\<close>

definition RoundTripper_RoundTrip ::
  "RoundTripper \<Rightarrow> Request \<Rightarrow> world \<Rightarrow> (error + Response) \<times> world" where
  "RoundTripper_RoundTrip rt req w = (rt (wire w) req, w\<lparr>wire := wire w @ [req]\<rparr>)"

section \<open>The package\<close>

subsection \<open>The transport and the constructor\<close>

definition transport_RoundTrip ::
  "transport \<Rightarrow> Request \<Rightarrow> world \<Rightarrow> (error + Response) \<times> world" where
  "transport_RoundTrip t req w =
     (let req1 = req\<lparr>Request_Header := Header_Add (Request_Header req) ''X-Api-Key'' (transport_xApiKey t)\<rparr>;
          req2 = req1\<lparr>Request_Header := Header_Add (Request_Header req1) ''Content-type'' ''application/json''\<rparr>
      in RoundTripper_RoundTrip (transport_rt t) req2 w)"

text \<open>
  \<^verbatim>\<open>http.Client.Do\<close> hands the request to the client's \<^verbatim>\<open>Transport\<close> and returns its
  answer. The redirects that \<^verbatim>\<open>net/http\<close> would follow are not modelled: the answer is
  taken as final.
\<close>

definition http_Client_Do ::
  "http_Client \<Rightarrow> Request \<Rightarrow> world \<Rightarrow> (error + Response) \<times> world" where
  "http_Client_Do hc req w = transport_RoundTrip (http_Client_Transport hc) req w"

definition NewClient :: "string \<Rightarrow> string \<Rightarrow> world \<Rightarrow> Client" where
  "NewClient apiKey whatsappID w =
     (let httpClient = \<lparr>http_Client_Transport =
            \<lparr>transport_rt = http_DefaultTransport w, transport_xApiKey = apiKey\<rparr>\<rparr>
      in \<lparr>Client_httpClient = httpClient, Client_url = ''https://whatsgate.ru/api/v1'',
          Client_WhatsappID = whatsappID\<rparr>)"

subsection \<open>\<^verbatim>\<open>SendMessage\<close>\<close>

text \<open>
  The text of the error that \<^verbatim>\<open>SendMessage\<close> of \<^verbatim>\<open>whatsgate.go\<close> returns on a
  status other than 200, in UTF-8 (it is Russian for "incorrect WhatsApp number").
\<close>

definition incorrect_number :: string where
  "incorrect_number =
     [CHR 0xD0, CHR 0xBD, CHR 0xD0, CHR 0xB5, CHR 0xD0, CHR 0xBA, CHR 0xD0, CHR 0xBE, CHR 0xD1,
      CHR 0x80, CHR 0xD1, CHR 0x80, CHR 0xD0, CHR 0xB5, CHR 0xD0, CHR 0xBA, CHR 0xD1, CHR 0x82,
      CHR 0xD0, CHR 0xBD, CHR 0xD1, CHR 0x8B, CHR 0xD0, CHR 0xB9, CHR '' '', CHR 0xD0, CHR 0xBD,
      CHR 0xD0, CHR 0xBE, CHR 0xD0, CHR 0xBC, CHR 0xD0, CHR 0xB5, CHR 0xD1, CHR 0x80, CHR '' '',
      CHR ''W'', CHR ''h'', CHR ''a'', CHR ''t'', CHR ''s'', CHR ''A'', CHR ''p'', CHR ''p'']"

definition SendMessage ::
  "string \<Rightarrow> string \<Rightarrow> world \<Rightarrow> (MessageResponse \<times> error option) \<times> world" where
  "SendMessage recipientPhone text w =
     (let c = client w in
      case json_Marshal_MessageRequest
             \<lparr>MessageRequest_WhatsappID = Client_WhatsappID c,
              MessageRequest_Async = False,
              MessageRequest_Recipient = \<lparr>Recipient_Number = recipientPhone\<rparr>,
              MessageRequest_Message = \<lparr>Message_Type = ''text'', Message_Body = text\<rparr>\<rparr> of
        (body, Some err) \<Rightarrow> ((MessageResponse_zero, Some err), w)
      | (body, None) \<Rightarrow>
     (case http_NewRequest w ''POST'' (Client_url c @ ''/send'') body of
        Inl err \<Rightarrow> ((MessageResponse_zero, Some err), slog_Error err w)
      | Inr r \<Rightarrow>
     (case http_Client_Do (Client_httpClient c) (r\<lparr>Request_Close := True\<rparr>) w of
        (Inl err, w1) \<Rightarrow> ((MessageResponse_zero, Some err), slog_Error err w1)
      | (Inr req, w1) \<Rightarrow>
     (case io_ReadAll (Response_Body req) of
        (respBody, Some err) \<Rightarrow> ((MessageResponse_zero, Some err), slog_Error err w1)
      | (respBody, None) \<Rightarrow>
          if Response_StatusCode req \<noteq> StatusOK
          then ((MessageResponse_zero, Some (errors_New incorrect_number)), w1)
          else
     (case json_Unmarshal_MessageResponse respBody MessageResponse_zero of
        (message, Some err) \<Rightarrow> ((MessageResponse_zero, Some err), slog_Error err w1)
      | (message, None) \<Rightarrow> ((message, None), w1))))))"

text \<open>
  The second source file of the package holds a variant of \<^verbatim>\<open>SendMessage\<close>: on a status
  other than 200 the error is the status text, and on status 200 the raw body is printed
  before it is unmarshalled.
\<close>

definition SendMessage_part_000 ::
  "string \<Rightarrow> string \<Rightarrow> world \<Rightarrow> (MessageResponse \<times> error option) \<times> world" where
  "SendMessage_part_000 recipientPhone text w =
     (let c = client w in
      case json_Marshal_MessageRequest
             \<lparr>MessageRequest_WhatsappID = Client_WhatsappID c,
              MessageRequest_Async = False,
              MessageRequest_Recipient = \<lparr>Recipient_Number = recipientPhone\<rparr>,
              MessageRequest_Message = \<lparr>Message_Type = ''text'', Message_Body = text\<rparr>\<rparr> of
        (body, Some err) \<Rightarrow> ((MessageResponse_zero, Some err), w)
      | (body, None) \<Rightarrow>
     (case http_NewRequest w ''POST'' (Client_url c @ ''/send'') body of
        Inl err \<Rightarrow> ((MessageResponse_zero, Some err), slog_Error err w)
      | Inr r \<Rightarrow>
     (case http_Client_Do (Client_httpClient c) (r\<lparr>Request_Close := True\<rparr>) w of
        (Inl err, w1) \<Rightarrow> ((MessageResponse_zero, Some err), slog_Error err w1)
      | (Inr req, w1) \<Rightarrow>
     (case io_ReadAll (Response_Body req) of
        (respBody, Some err) \<Rightarrow> ((MessageResponse_zero, Some err), slog_Error err w1)
      | (respBody, None) \<Rightarrow>
          if Response_StatusCode req \<noteq> StatusOK
          then ((MessageResponse_zero, Some (errors_New (Response_Status req))), w1)
          else
     (let w2 = fmt_Println respBody w1 in
      case json_Unmarshal_MessageResponse respBody MessageResponse_zero of
        (message, Some err) \<Rightarrow> ((MessageResponse_zero, Some err), slog_Error err w2)
      | (message, None) \<Rightarrow> ((message, None), w2))))))"

subsection \<open>\<^verbatim>\<open>SendPDF\<close>\<close>

definition SendPDF ::
  "string \<Rightarrow> string \<Rightarrow> string \<Rightarrow> Reader \<Rightarrow> world \<Rightarrow> (MessageResponse \<times> error option) \<times> world" where
  "SendPDF recipientPhone text filename pdf w =
     (let c = client w in
      case io_ReadAll pdf of
        (b, Some err) \<Rightarrow> ((MessageResponse_zero, Some err), w)
      | (b, None) \<Rightarrow>
     (case json_Marshal_MessagePDFRequest
             \<lparr>MessagePDFRequest_WhatsappID = Client_WhatsappID c,
              MessagePDFRequest_Async = False,
              MessagePDFRequest_Recipient = \<lparr>Recipient_Number = recipientPhone\<rparr>,
              MessagePDFRequest_Message =
                \<lparr>MessagePDF_Type = ''doc'', MessagePDF_Body = text,
                 MessagePDF_Media =
                   \<lparr>Media_Mimetype = ''application/pdf'', Media_Data = EncodeToString b,
                    Media_Filename = filename\<rparr>\<rparr>\<rparr> of
        (body, Some err) \<Rightarrow> ((MessageResponse_zero, Some err), w)
      | (body, None) \<Rightarrow>
     (case http_NewRequest w ''POST'' (Client_url c @ ''/send'') body of
        Inl err \<Rightarrow> ((MessageResponse_zero, Some err), slog_Error err w)
      | Inr r \<Rightarrow>
     (case http_Client_Do (Client_httpClient c) (r\<lparr>Request_Close := True\<rparr>) w of
        (Inl err, w1) \<Rightarrow> ((MessageResponse_zero, Some err), slog_Error err w1)
      | (Inr req, w1) \<Rightarrow>
     (case io_ReadAll (Response_Body req) of
        (respBody, Some err) \<Rightarrow> ((MessageResponse_zero, Some err), slog_Error err w1)
      | (respBody, None) \<Rightarrow>
          if Response_StatusCode req \<noteq> StatusOK
          then ((MessageResponse_zero, Some (errors_New (Response_Status req))), w1)
          else
     (case json_Unmarshal_MessageResponse respBody MessageResponse_zero of
        (message, Some err) \<Rightarrow> ((MessageResponse_zero, Some err), slog_Error err w1)
      | (message, None) \<Rightarrow> ((message, None), w1)))))))"

subsection \<open>\<^verbatim>\<open>Check\<close>\<close>

definition Check :: "string \<Rightarrow> world \<Rightarrow> (bool \<times> error option) \<times> world" where
  "Check phone w =
     (let c = client w in
      case json_Marshal_CheckRequest
             \<lparr>CheckRequest_WhatsappID = Client_WhatsappID c, CheckRequest_Number = phone\<rparr> of
        (body, Some err) \<Rightarrow> ((False, Some err), w)
      | (body, None) \<Rightarrow>
     (case http_NewRequest w ''POST'' (Client_url c @ ''/check'') body of
        Inl err \<Rightarrow> ((False, Some err), w)
      | Inr r \<Rightarrow>
     (case http_Client_Do (Client_httpClient c) (r\<lparr>Request_Close := True\<rparr>) w of
        (Inl err, w1) \<Rightarrow> ((False, Some err), slog_Error err w1)
      | (Inr req, w1) \<Rightarrow>
          if Response_StatusCode req \<noteq> StatusOK
          then ((False, Some (errors_New (Response_Status req))), w1)
          else
     (case Decoder_Decode_CheckResponse (Response_Body req) CheckResponse_zero of
        (response, Some err) \<Rightarrow> ((False, Some err), slog_Error err w1)
      | (response, None) \<Rightarrow> ((CheckResponse_Data response, None), w1)))))"

section \<open>A stub gateway\<close>

text \<open>
  For concrete runs: a round tripper that answers every request with the same status and
  body, and a world with nothing sent yet whose URL parser accepts every URL and whose
  client is \<open>NewClient ''k1'' ''wa1''\<close>.
\<close>

definition stub_server :: "int \<Rightarrow> string \<Rightarrow> string \<Rightarrow> RoundTripper" where
  "stub_server code status body =
     (\<lambda>sent req. Inr \<lparr>Response_Status = status, Response_StatusCode = code,
                        Response_Body = \<lparr>Reader_data = body, Reader_err = None\<rparr>\<rparr>)"

definition stub_world :: "RoundTripper \<Rightarrow> world" where
  "stub_world rt =
     (let w = \<lparr>client = \<lparr>Client_httpClient = \<lparr>http_Client_Transport =
                    \<lparr>transport_rt = rt, transport_xApiKey = []\<rparr>\<rparr>,
                  Client_url = [], Client_WhatsappID = []\<rparr>,
               http_DefaultTransport = rt, url_Parse = (\<lambda>url. None),
               wire = [], stdout = [], slog = []\<rparr>
      in w\<lparr>client := NewClient ''k1'' ''wa1'' w\<rparr>)"

section \<open>Properties\<close>

lemma validMethod_POST: "validMethod ''POST''"
  by (simp add: validMethod_def validHeaderFieldByte_def byte_def)

lemmas run_defs =
  json_Marshal_MessageRequest_def json_Marshal_MessagePDFRequest_def json_Marshal_CheckRequest_def
  http_NewRequest_def http_Client_Do_def transport_RoundTrip_def RoundTripper_RoundTrip_def
  io_ReadAll_def slog_Error_def fmt_Println_def Let_def validMethod_POST

subsection \<open>The client is left as it was\<close>

text \<open>
  C9. No operation modifies the client's configuration: the \<^verbatim>\<open>Client\<close> behind the
  receiver, with its base URL, its API key and its sender ID, is the same after a call of
  \<^verbatim>\<open>SendMessage\<close> (either variant), \<^verbatim>\<open>SendPDF\<close> or \<^verbatim>\<open>Check\<close> as before it, whether
  the call succeeds or fails.
\<close>

lemma SendMessage_client: "client (snd (SendMessage recipientPhone text w)) = client w"
  by (simp add: SendMessage_def run_defs split: sum.splits option.splits prod.splits)

lemma SendMessage_part_000_client:
  "client (snd (SendMessage_part_000 recipientPhone text w)) = client w"
  by (simp add: SendMessage_part_000_def run_defs split: sum.splits option.splits prod.splits)

lemma SendPDF_client: "client (snd (SendPDF recipientPhone text filename pdf w)) = client w"
  by (simp add: SendPDF_def run_defs split: sum.splits option.splits prod.splits)

lemma Check_client: "client (snd (Check phone w)) = client w"
  by (simp add: Check_def run_defs split: sum.splits option.splits prod.splits)

theorem client_unchanged:
  "client (snd (SendMessage recipientPhone text w)) = client w
   \<and> client (snd (SendMessage_part_000 recipientPhone text w)) = client w
   \<and> client (snd (SendPDF recipientPhone text filename pdf w)) = client w
   \<and> client (snd (Check phone w)) = client w"
  by (simp only: SendMessage_client SendMessage_part_000_client SendPDF_client Check_client
                 simp_thms)

theorem client_unchanged_witness:
  "client (snd (SendMessage ''79990001122'' ''hello'' (stub_world (stub_server 200 ''200 OK'' ''{}''))))
     = client (stub_world (stub_server 200 ''200 OK'' ''{}''))
   \<and> client (snd (Check ''79990001122'' (stub_world (stub_server 404 ''404 Not Found'' []))))
     = client (stub_world (stub_server 404 ''404 Not Found'' []))"
  using client_unchanged by blast

subsection \<open>Errors come with zero values\<close>

text \<open>
  C10. Whenever an operation returns a non-nil error, the value returned with it is the
  zero value of its type: the zero \<^verbatim>\<open>MessageResponse\<close> for \<^verbatim>\<open>SendMessage\<close> and
  \<^verbatim>\<open>SendPDF\<close>, \<^verbatim>\<open>false\<close> for \<^verbatim>\<open>Check\<close>.
\<close>

lemma SendMessage_error_zero:
  "snd (fst (SendMessage recipientPhone text w)) \<noteq> None
   \<Longrightarrow> fst (fst (SendMessage recipientPhone text w)) = MessageResponse_zero"
  by (simp add: SendMessage_def run_defs split: sum.splits option.splits prod.splits if_splits)

lemma SendPDF_error_zero:
  "snd (fst (SendPDF recipientPhone text filename pdf w)) \<noteq> None
   \<Longrightarrow> fst (fst (SendPDF recipientPhone text filename pdf w)) = MessageResponse_zero"
  by (simp add: SendPDF_def run_defs split: sum.splits option.splits prod.splits if_splits)

lemma Check_error_false:
  "snd (fst (Check phone w)) \<noteq> None \<Longrightarrow> fst (fst (Check phone w)) = False"
  by (simp add: Check_def run_defs split: sum.splits option.splits prod.splits if_splits)

theorem error_with_zero_value:
  "(snd (fst (SendMessage recipientPhone text w)) \<noteq> None
      \<longrightarrow> fst (fst (SendMessage recipientPhone text w)) = MessageResponse_zero)
   \<and> (snd (fst (SendPDF recipientPhone text filename pdf w)) \<noteq> None
      \<longrightarrow> fst (fst (SendPDF recipientPhone text filename pdf w)) = MessageResponse_zero)
   \<and> (snd (fst (Check phone w)) \<noteq> None \<longrightarrow> fst (fst (Check phone w)) = False)"
  using SendMessage_error_zero SendPDF_error_zero Check_error_false by blast

theorem error_with_zero_value_witness:
  "snd (fst (SendMessage ''79990001122'' ''hello''
              (stub_world (stub_server 200 ''200 OK'' ''{\"result\":{\"_id\":\"abc\",\"ack\":\"1\"}}'')))) \<noteq> None
   \<and> fst (fst (SendMessage ''79990001122'' ''hello''
              (stub_world (stub_server 200 ''200 OK'' ''{\"result\":{\"_id\":\"abc\",\"ack\":\"1\"}}''))))
       = MessageResponse_zero"
proof -
  have "snd (fst (SendMessage ''79990001122'' ''hello''
              (stub_world (stub_server 200 ''200 OK'' ''{\"result\":{\"_id\":\"abc\",\"ack\":\"1\"}}'')))) \<noteq> None"
    by code_simp
  with error_with_zero_value
         [of "''79990001122''" "''hello''"
             "stub_world (stub_server 200 ''200 OK'' ''{\"result\":{\"_id\":\"abc\",\"ack\":\"1\"}}'')"]
  show ?thesis by simp
qed

end
